theory Spec2Isabelle
  imports Main "HOL-Library.Word"
begin

section \<open>JavaScript values\<close>

text \<open>
  The client handles untyped data: the caller's parameter bag, the parsed response body,
  the transport's error object. They are embedded in one datatype of values.

  \<^item> A number is an integer-valued double, carried as its mathematical value; \<open>JNaN\<close> is
    the one non-number that matters for truthiness. Arithmetic rounds to the nearest
    double (\<open>round_to_double\<close> below), so the loss of precision above \<open>2 ^ 53\<close> is part
    of the model. Fractions and infinities are not represented.
  \<^item> A string is a list of code units below 256 (the Latin-1 range).
  \<^item> An object is the list of its own properties in insertion order, one entry per key.
\<close>

datatype jsval =
    JUndefined
  | JNull
  | JBool bool
  | JNum int
  | JNaN
  | JStr string
  | JArr "jsval list"
  | JObj "(string \<times> jsval) list"

text \<open>Exceptions. \<open>Error\<close> carries its message; the two built-in kinds are raised by the
  language itself (a property read on \<open>null\<close>, a call of something that is not a function,
  a variable that is not bound).\<close>

datatype jserror = Error string | TypeError | ReferenceError

type_synonym object = "(string \<times> jsval) list"

text \<open>Truthiness, as \<open>if (v)\<close>, \<open>!v\<close> and \<open>a || b\<close> test it.\<close>

fun truthy :: "jsval \<Rightarrow> bool" where
  "truthy JUndefined = False"
| "truthy JNull = False"
| "truthy (JBool b) = b"
| "truthy (JNum n) = (n \<noteq> 0)"
| "truthy JNaN = False"
| "truthy (JStr s) = (s \<noteq> [])"
| "truthy (JArr xs) = True"
| "truthy (JObj kvs) = True"

text \<open>\<open>a || b\<close>\<close>

definition js_or :: "jsval \<Rightarrow> jsval \<Rightarrow> jsval" where
  "js_or a b = (if truthy a then a else b)"

text \<open>Reading and writing an own property of an object: \<open>o.k\<close> is \<open>undefined\<close> when the
  key is missing; \<open>o.k = v\<close> overwrites in place or appends.\<close>

definition obj_get :: "object \<Rightarrow> string \<Rightarrow> jsval" where
  "obj_get kvs k = (case map_of kvs k of None \<Rightarrow> JUndefined | Some v \<Rightarrow> v)"

fun obj_set :: "(string \<times> 'v) list \<Rightarrow> string \<Rightarrow> 'v \<Rightarrow> (string \<times> 'v) list" where
  "obj_set [] k v = [(k, v)]"
| "obj_set ((k', v') # kvs) k v =
     (if k' = k then (k, v) # kvs else (k', v') # obj_set kvs k v)"

text \<open>\<open>v.k\<close> on an arbitrary value, for the keys the client reads (\<open>error\<close>, \<open>result\<close>):
  \<open>null\<close> and \<open>undefined\<close> have no properties and the read throws; on every other value
  that is not an object neither key is defined on the built-in prototypes.\<close>

fun get_prop :: "jsval \<Rightarrow> string \<Rightarrow> jserror + jsval" where
  "get_prop JUndefined k = Inl TypeError"
| "get_prop JNull k = Inl TypeError"
| "get_prop (JObj kvs) k = Inr (obj_get kvs k)"
| "get_prop v k = Inr JUndefined"

subsection \<open>Numbers\<close>

text \<open>The number of low bits of a magnitude that do not fit a double's 53-bit significand.\<close>

fun excess_bits :: "nat \<Rightarrow> nat" where
  "excess_bits a = (if a < 2 ^ 53 then 0 else Suc (excess_bits (a div 2)))"

declare excess_bits.simps [simp del]

text \<open>Rounding an integer to the nearest double, ties to even (overflow to infinity,
  beyond \<open>2 ^ 1024\<close>, is not represented).\<close>

definition round_to_double :: "int \<Rightarrow> int" where
  "round_to_double n =
     (let a = nat \<bar>n\<bar>; e = excess_bits a; q = a div 2 ^ e; r = a mod 2 ^ e;
          q' = (if 2 * r < 2 ^ e \<or> (2 * r = 2 ^ e \<and> even q) then q else q + 1)
      in if e = 0 then n else sgn n * int (q' * 2 ^ e))"

definition js_add :: "int \<Rightarrow> int \<Rightarrow> int" where
  "js_add a b = round_to_double (a + b)"

definition js_mul :: "int \<Rightarrow> int \<Rightarrow> int" where
  "js_mul a b = round_to_double (a * b)"

text \<open>Decimal digits of a natural number.\<close>

fun decimal :: "nat \<Rightarrow> string" where
  "decimal n = (if n < 10 then [char_of (48 + n)] else decimal (n div 10) @ [char_of (48 + n mod 10)])"

declare decimal.simps [simp del]

definition decimalString :: "int \<Rightarrow> string" where
  "decimalString n = (if n < 0 then CHR ''-'' # decimal (nat (- n)) else decimal (nat n))"

subsection \<open>Strings and bytes\<close>

type_synonym byte = "8 word"

text \<open>The \<open>'binary'\<close> (Latin-1) encoding of Node buffers: a byte becomes the code unit of
  the same value; a code unit becomes its low byte.\<close>

definition latin1_decode :: "byte list \<Rightarrow> string" where
  "latin1_decode bs = map (\<lambda>b. char_of (unat b)) bs"

definition latin1_encode :: "string \<Rightarrow> byte list" where
  "latin1_encode s = map (\<lambda>c. word_of_nat (of_char c)) s"

text \<open>UTF-8, the default encoding of \<open>hash.update(string)\<close>: a code unit below 128 is one
  byte, one from 128 to 255 is two.\<close>

definition utf8_unit :: "char \<Rightarrow> byte list" where
  "utf8_unit c =
     (let n = (of_char c :: nat)
      in if n < 128 then [word_of_nat n]
         else [word_of_nat (192 + n div 64), word_of_nat (128 + n mod 64)])"

definition utf8_encode :: "string \<Rightarrow> byte list" where
  "utf8_encode s = concat (map utf8_unit s)"

section \<open>The platform\<close>

text \<open>
  What the client calls but does not define: \<open>JSON.parse\<close> (\<open>None\<close> when it throws) and
  \<open>JSON.stringify\<close>, \<open>qs.stringify\<close>, the hash functions and base64 of \<open>crypto\<close> and
  \<open>Buffer\<close>, the spelling of a number from \<open>2 ^ 53\<close> on (the shortest digits that read
  back as the same double, in exponent notation from \<open>10 ^ 21\<close>), and the global
  variable \<open>self\<close>, which the class-based client reads without declaring it (\<open>None\<close>
  when the host binds no such global, as on Node).
\<close>

record platform =
  json_parse :: "string \<Rightarrow> jsval option"
  json_stringify :: "jsval \<Rightarrow> string"
  qs_stringify :: "object \<Rightarrow> string"
  sha256 :: "byte list \<Rightarrow> byte list"
  hmac_sha512 :: "byte list \<Rightarrow> byte list \<Rightarrow> byte list"
  base64_decode :: "string \<Rightarrow> byte list"
  base64_encode :: "byte list \<Rightarrow> string"
  large_number_string :: "int \<Rightarrow> string"
  global_self :: "jsval option"

text \<open>\<open>ToString\<close> of a number: below \<open>2 ^ 53\<close> every integer is a double of its own
  and is printed with all its decimal digits.\<close>

definition number_to_string :: "platform \<Rightarrow> int \<Rightarrow> string" where
  "number_to_string P n = (if \<bar>n\<bar> < 2 ^ 53 then decimalString n else large_number_string P n)"

text \<open>\<open>Array.prototype.join\<close> with a comma.\<close>

fun join_comma :: "string list \<Rightarrow> string" where
  "join_comma [] = []"
| "join_comma [s] = s"
| "join_comma (s # t # ss) = s @ '','' @ join_comma (t # ss)"

text \<open>\<open>ToString\<close> of a value, as \<open>v + string\<close> applies it.\<close>

fun to_string :: "platform \<Rightarrow> jsval \<Rightarrow> string" where
  "to_string P JUndefined = ''undefined''"
| "to_string P JNull = ''null''"
| "to_string P (JBool b) = (if b then ''true'' else ''false'')"
| "to_string P (JNum n) = number_to_string P n"
| "to_string P JNaN = ''NaN''"
| "to_string P (JStr s) = s"
| "to_string P (JArr xs) =
     join_comma (map (\<lambda>x. if x = JNull \<or> x = JUndefined then [] else to_string P x) xs)"
| "to_string P (JObj kvs) = ''[object Object]''"

section \<open>The client\<close>

subsection \<open>Configuration and construction\<close>

record client_config =
  cfg_url :: string
  cfg_version :: string
  cfg_key :: string
  cfg_secret :: string
  cfg_otp :: "string option"
  cfg_timeoutMS :: int

text \<open>The third argument of the constructor: a bare string (shorthand for the one-time
  password) or an object with the optional fields \<open>version\<close>, \<open>otp\<close> and \<open>timeout\<close>.\<close>

record options_object =
  opt_version :: "string option"
  opt_otp :: "string option"
  opt_timeout :: "int option"

datatype options = OtpString string | Options options_object

definition no_options :: options_object where
  "no_options = \<lparr>opt_version = None, opt_otp = None, opt_timeout = None\<rparr>"

text \<open>The object literal both constructors build from the options object
  (lines 27-34 and 251-258): \<open>||\<close> replaces a missing or falsy field by its default.\<close>

definition make_config :: "string \<Rightarrow> string \<Rightarrow> options_object \<Rightarrow> client_config" where
  "make_config k s opts =
     \<lparr>cfg_url = ''https://api.kraken.com'',
      cfg_version = (case opt_version opts of None \<Rightarrow> ''0'' | Some v \<Rightarrow> if v = [] then ''0'' else v),
      cfg_key = k,
      cfg_secret = s,
      cfg_otp = opt_otp opts,
      cfg_timeoutMS = (case opt_timeout opts of None \<Rightarrow> 5000 | Some t \<Rightarrow> if t = 0 then 5000 else t)\<rparr>"

text \<open>The class-based client (lines 11-228) owns a configuration and the last nonce it
  issued.\<close>

record client =
  config :: client_config
  lastNonce :: int

text \<open>\<open>constructor(key, secret, options = {})\<close>, lines 22-39; \<open>now\<close> is what \<open>Date.now()\<close>
  returns, \<open>None\<close> stands for an omitted argument.\<close>

definition KrakenClient_class :: "int \<Rightarrow> string \<Rightarrow> string \<Rightarrow> options option \<Rightarrow> client" where
  "KrakenClient_class now k s options =
     (let opts = (case options of
                    None \<Rightarrow> no_options
                  | Some (OtpString str) \<Rightarrow> no_options\<lparr>opt_otp := Some str\<rparr>
                  | Some (Options ob) \<Rightarrow> ob)
      in \<lparr>config = make_config k s opts, lastNonce = js_mul now 1000\<rparr>)"

text \<open>\<open>function KrakenClient(key, secret, options)\<close>, lines 242-258: the closure-based
  client keeps a configuration and nothing else; \<open>options || {}\<close> also discards the
  empty string.\<close>

definition KrakenClient :: "string \<Rightarrow> string \<Rightarrow> options option \<Rightarrow> client_config" where
  "KrakenClient k s options =
     (let opts = (case options of
                    None \<Rightarrow> no_options
                  | Some (OtpString str) \<Rightarrow>
                      if str = [] then no_options else no_options\<lparr>opt_otp := Some str\<rparr>
                  | Some (Options ob) \<Rightarrow> ob)
      in make_config k s opts)"

subsection \<open>The method catalog\<close>

definition AVAILABLE_METHODS_public :: "string list" where
  "AVAILABLE_METHODS_public =
     [''Time'', ''Assets'', ''AssetPairs'', ''Ticker'', ''Depth'', ''Trades'', ''Spread'', ''OHLC'']"

definition AVAILABLE_METHODS_private :: "string list" where
  "AVAILABLE_METHODS_private =
     [''Balance'', ''TradeBalance'', ''OpenOrders'', ''ClosedOrders'', ''QueryOrders'',
      ''TradesHistory'', ''QueryTrades'', ''OpenPositions'', ''Ledgers'', ''QueryLedgers'',
      ''TradeVolume'', ''AddOrder'', ''CancelOrder'', ''DepositMethods'', ''DepositAddresses'',
      ''DepositStatus'', ''WithdrawInfo'', ''Withdraw'', ''WithdrawStatus'', ''WithdrawCancel'']"

subsection \<open>Signing\<close>

text \<open>\<open>_getMessageSignature\<close> (lines 127-135) and \<open>getMessageSignature\<close> (lines 337-347)
  are the same computation. \<open>nonce + message\<close> is string concatenation, hashed as UTF-8;
  the digest travels as a \<open>'binary'\<close> string and is appended to the path, and the whole
  string is read back as \<open>'binary'\<close> bytes.\<close>

definition getMessageSignature ::
  "platform \<Rightarrow> client_config \<Rightarrow> string \<Rightarrow> object \<Rightarrow> jsval \<Rightarrow> string" where
  "getMessageSignature P cfg path request nonce =
     (let message = qs_stringify P request;
          secret = base64_decode P (cfg_secret cfg);
          hash_digest = latin1_decode (sha256 P (utf8_encode (to_string P nonce @ message)))
      in base64_encode P (hmac_sha512 P secret (latin1_encode (path @ hash_digest))))"

subsection \<open>Sending\<close>

text \<open>The options handed to \<open>request.post\<close>, and the call in flight: the options
  together with whether the caller passed a callback.\<close>

record request_options =
  rq_url :: string
  rq_method :: string
  rq_headers :: "(string \<times> string) list"
  rq_form :: object
  rq_timeout :: int

record call =
  sent :: request_options
  with_callback :: bool

text \<open>\<open>_rawRequest\<close> / \<open>rawRequest\<close> up to the call of \<open>request.post\<close>
  (lines 147-160 and 357-370).\<close>

definition rawRequest ::
  "client_config \<Rightarrow> string \<Rightarrow> (string \<times> string) list \<Rightarrow> object \<Rightarrow> bool \<Rightarrow> call" where
  "rawRequest cfg u headers params callback =
     \<lparr>sent = \<lparr>rq_url = u,
               rq_method = ''POST'',
               rq_headers = obj_set headers ''User-Agent'' ''Kraken Javascript API Client'',
               rq_form = params,
               rq_timeout = cfg_timeoutMS cfg\<rparr>,
      with_callback = callback\<rparr>"

subsection \<open>Public and private methods\<close>

text \<open>An omitted \<open>params\<close> argument is the empty object (\<open>params = {}\<close> in the
  signature of the class methods, \<open>params = params || {}\<close> in the closure-based ones).\<close>

fun default_params :: "object option \<Rightarrow> object" where
  "default_params None = []"
| "default_params (Some p) = p"

text \<open>\<open>_publicMethod\<close> (lines 68-74) and \<open>publicMethod\<close> (lines 290-297).\<close>

definition publicMethod :: "client_config \<Rightarrow> string \<Rightarrow> object option \<Rightarrow> bool \<Rightarrow> call" where
  "publicMethod cfg method params_arg callback =
     (let params = default_params params_arg;
          path = ''/'' @ cfg_version cfg @ ''/public/'' @ method;
          u = cfg_url cfg @ path
      in rawRequest cfg u [] params callback)"

text \<open>The nonce step of the class-based client, lines 90-102: the parameters and the
  counter after it.\<close>

definition cls_nonce_step :: "int \<Rightarrow> int \<Rightarrow> object \<Rightarrow> object \<times> int" where
  "cls_nonce_step now prev params =
     (if \<not> truthy (obj_get params ''nonce'') then
        (let nonce = (if prev \<noteq> 0 then js_add prev 1 else js_mul now 1000)
         in (obj_set params ''nonce'' (JNum nonce), nonce))
      else (params, prev))"

text \<open>Lines 104-106 and 316-318.\<close>

definition otp_step :: "client_config \<Rightarrow> object \<Rightarrow> object" where
  "otp_step cfg params =
     (case cfg_otp cfg of None \<Rightarrow> params | Some v \<Rightarrow> obj_set params ''otp'' (JStr v))"

text \<open>\<open>_privateMethod\<close>, lines 85-116.\<close>

definition cls_privateMethod ::
  "platform \<Rightarrow> int \<Rightarrow> client \<Rightarrow> string \<Rightarrow> object option \<Rightarrow> bool \<Rightarrow> client \<times> call" where
  "cls_privateMethod P now c method params_arg callback =
     (let cfg = config c;
          params0 = default_params params_arg;
          path = ''/'' @ cfg_version cfg @ ''/private/'' @ method;
          u = cfg_url cfg @ path;
          (params1, issued) = cls_nonce_step now (lastNonce c) params0;
          params = otp_step cfg params1;
          signature = getMessageSignature P cfg path params (obj_get params ''nonce'');
          headers = [(''API-Key'', cfg_key cfg), (''API-Sign'', signature)]
      in (c\<lparr>lastNonce := issued\<rparr>, rawRequest cfg u headers params callback))"

text \<open>\<open>privateMethod\<close> of the closure-based client, lines 306-328: the nonce is read off
  the clock at every call (\<open>new Date() * 1000\<close>).\<close>

definition privateMethod ::
  "platform \<Rightarrow> int \<Rightarrow> client_config \<Rightarrow> string \<Rightarrow> object option \<Rightarrow> bool \<Rightarrow> call" where
  "privateMethod P now cfg method params_arg callback =
     (let params0 = default_params params_arg;
          path = ''/'' @ cfg_version cfg @ ''/private/'' @ method;
          u = cfg_url cfg @ path;
          params1 = (if \<not> truthy (obj_get params0 ''nonce'')
                     then obj_set params0 ''nonce'' (JNum (js_mul now 1000)) else params0);
          params = otp_step cfg params1;
          signature = getMessageSignature P cfg path params (obj_get params ''nonce'');
          headers = [(''API-Key'', cfg_key cfg), (''API-Sign'', signature)]
      in rawRequest cfg u headers params callback)"

subsection \<open>Dispatch\<close>

text \<open>\<open>api\<close> of the class-based client, lines 49-57. A \<open>throw\<close> is the left summand: the
  call returns no promise and nothing is sent.\<close>

definition cls_api ::
  "platform \<Rightarrow> int \<Rightarrow> client \<Rightarrow> string \<Rightarrow> object option \<Rightarrow> bool \<Rightarrow> jserror + client \<times> call" where
  "cls_api P now c method params callback =
     (if method \<in> set AVAILABLE_METHODS_public then
        Inr (c, publicMethod (config c) method params callback)
      else if method \<in> set AVAILABLE_METHODS_private then
        Inr (cls_privateMethod P now c method params callback)
      else Inl (Error (method @ '' is not a valid API method.'')))"

text \<open>\<open>api\<close> of the closure-based client, lines 267-281.\<close>

definition api ::
  "platform \<Rightarrow> int \<Rightarrow> client_config \<Rightarrow> string \<Rightarrow> object option \<Rightarrow> bool \<Rightarrow> jserror + call" where
  "api P now cfg method params callback =
     (if method \<in> set AVAILABLE_METHODS_public then
        Inr (publicMethod cfg method params callback)
      else if method \<in> set AVAILABLE_METHODS_private then
        Inr (privateMethod P now cfg method params callback)
      else Inl (Error (method @ '' is not a valid API method.'')))"

subsection \<open>Completion\<close>

text \<open>What a call has done once the transport has answered: the state of the returned
  promise, the invocations of the caller's callback (error or \<open>null\<close>, then the value),
  and an exception that escaped the response handler.\<close>

datatype promise_state = Pending | Resolved jsval | Rejected jserror

record completion =
  promise :: promise_state
  callback_calls :: "(jserror option \<times> jsval) list"
  uncaught :: "jserror option"

text \<open>The block that ends each of the four failure branches (lines 166-171, 179-184,
  202-207, 211-216, and the same in the closure-based client):
  \<^verbatim>\<open>if (callback) { resolve(); return callback.call(self, error, null); }
  else { return reject(error); }\<close>
  \<open>self\<close> is \<open>None\<close> when the identifier is unbound: evaluating the argument throws after
  the promise has been resolved and before the callback is entered.\<close>

definition report_error :: "jsval option \<Rightarrow> bool \<Rightarrow> jserror \<Rightarrow> completion" where
  "report_error self callback error =
     (if callback then
        (case self of
           None \<Rightarrow> \<lparr>promise = Resolved JUndefined, callback_calls = [],
                     uncaught = Some ReferenceError\<rparr>
         | Some this \<Rightarrow> \<lparr>promise = Resolved JUndefined, callback_calls = [(Some error, JNull)],
                         uncaught = None\<rparr>)
      else \<lparr>promise = Rejected error, callback_calls = [], uncaught = None\<rparr>)"

text \<open>The success branch, lines 219-223 and 428-432:
  \<^verbatim>\<open>resolve(v); if (callback) { callback.call(self, null, v); }\<close>\<close>

definition report_success :: "jsval option \<Rightarrow> bool \<Rightarrow> jsval \<Rightarrow> completion" where
  "report_success self callback v =
     (if callback then
        (case self of
           None \<Rightarrow> \<lparr>promise = Resolved v, callback_calls = [], uncaught = Some ReferenceError\<rparr>
         | Some this \<Rightarrow> \<lparr>promise = Resolved v, callback_calls = [(None, v)], uncaught = None\<rparr>)
      else \<lparr>promise = Resolved v, callback_calls = [], uncaught = None\<rparr>)"

text \<open>An exception thrown inside the response handler: the promise stays unsettled.\<close>

definition escaped :: "jserror \<Rightarrow> completion" where
  "escaped e = \<lparr>promise = Pending, callback_calls = [], uncaught = Some e\<rparr>"

text \<open>The \<open>forEach\<close> over \<open>data.error\<close>, lines 192-197 and 401-406, with the variable
  \<open>krakenError\<close> as accumulator. The \<open>return false\<close> of the callback leaves the
  callback, not the loop: \<open>forEach\<close> visits every element. \<open>charAt\<close> exists on strings
  only.\<close>

fun forEach_error :: "jsval list \<Rightarrow> jsval \<Rightarrow> jserror + jsval" where
  "forEach_error [] krakenError = Inr krakenError"
| "forEach_error (JStr s # es) krakenError =
     forEach_error es (if take 1 s = ''E'' then JStr (drop 1 s) else krakenError)"
| "forEach_error (e # es) krakenError = Inl TypeError"

text \<open>\<open>Array.isArray(v)\<close>, and the elements of an array.\<close>

fun isArray :: "jsval \<Rightarrow> bool" where
  "isArray (JArr xs) = True"
| "isArray v = False"

fun elements :: "jsval \<Rightarrow> jsval list" where
  "elements (JArr xs) = xs"
| "elements v = []"

text \<open>The response handler from the parsed body on, lines 189-224 and 399-433. The test
  is \<open>data.error && Array.isArray(data.error) && data.error.length\<close>.\<close>

definition on_parsed :: "platform \<Rightarrow> jsval option \<Rightarrow> bool \<Rightarrow> jsval \<Rightarrow> completion" where
  "on_parsed P self callback data =
     (case get_prop data ''error'' of
        Inl e \<Rightarrow> escaped e
      | Inr err \<Rightarrow>
          if truthy err \<and> isArray err \<and> length (elements err) \<noteq> 0 then
            (case forEach_error (elements err) JNull of
               Inl e \<Rightarrow> escaped e
             | Inr krakenError \<Rightarrow>
                 if truthy krakenError then
                   report_error self callback
                     (Error (''Kraken API returned error: '' @ to_string P krakenError))
                 else
                   report_error self callback
                     (Error (''Kraken API returned an unknown error: '' @ json_stringify P err)))
          else
            (case get_prop data ''result'' of
               Inl e \<Rightarrow> escaped e
             | Inr r \<Rightarrow> report_success self callback (js_or r data)))"

text \<open>The whole response handler \<open>function (error, response, body)\<close>, lines 160-225 and
  370-434.\<close>

definition rawRequest_callback ::
  "platform \<Rightarrow> jsval option \<Rightarrow> bool \<Rightarrow> jsval \<Rightarrow> string \<Rightarrow> completion" where
  "rawRequest_callback P self callback error body =
     (if truthy error then
        report_error self callback
          (Error (''Error in server response: '' @ json_stringify P error))
      else
        (case json_parse P body of
           None \<Rightarrow>
             report_error self callback
               (Error (''Could not understand response from server: '' @ body))
         | Some data \<Rightarrow> on_parsed P self callback data))"

text \<open>The handler as each client runs it: the class-based one looks \<open>self\<close> up among the
  globals, the closure-based one has bound it to the client (\<open>var self = this\<close>,
  line 243), here an opaque object.\<close>

definition cls_complete :: "platform \<Rightarrow> call \<Rightarrow> jsval \<Rightarrow> string \<Rightarrow> completion" where
  "cls_complete P cl error body =
     rawRequest_callback P (global_self P) (with_callback cl) error body"

definition complete :: "platform \<Rightarrow> call \<Rightarrow> jsval \<Rightarrow> string \<Rightarrow> completion" where
  "complete P cl error body =
     rawRequest_callback P (Some (JObj [])) (with_callback cl) error body"

text \<open>How a finished call looks to a caller whose callback could be entered: a failure
  reaches the callback when there is one and rejects the promise when there is none; a
  success resolves the promise with the value and also reaches the callback.\<close>

abbreviation failed_with :: "bool \<Rightarrow> jserror \<Rightarrow> completion" where
  "failed_with callback e \<equiv>
     (if callback
      then \<lparr>promise = Resolved JUndefined, callback_calls = [(Some e, JNull)], uncaught = None\<rparr>
      else \<lparr>promise = Rejected e, callback_calls = [], uncaught = None\<rparr>)"

abbreviation succeeded_with :: "bool \<Rightarrow> jsval \<Rightarrow> completion" where
  "succeeded_with callback v \<equiv>
     \<lparr>promise = Resolved v, callback_calls = (if callback then [(None, v)] else []),
      uncaught = None\<rparr>"

subsection \<open>Sequences of private calls\<close>

text \<open>One invocation: what the clock reads when it is made, the method, the parameters
  and whether a callback is passed. The class-based client threads its counter through
  the calls; the closure-based one has no state to thread.\<close>

type_synonym invocation = "int \<times> string \<times> object option \<times> bool"

fun cls_private_calls :: "platform \<Rightarrow> client \<Rightarrow> invocation list \<Rightarrow> client \<times> call list" where
  "cls_private_calls P c [] = (c, [])"
| "cls_private_calls P c ((now, method, params, callback) # rest) =
     (let (c1, cl) = cls_privateMethod P now c method params callback;
          (c2, cls) = cls_private_calls P c1 rest
      in (c2, cl # cls))"

definition private_calls :: "platform \<Rightarrow> client_config \<Rightarrow> invocation list \<Rightarrow> call list" where
  "private_calls P cfg invs =
     map (\<lambda>(now, method, params, callback). privateMethod P now cfg method params callback) invs"

text \<open>The nonce a call transmits, and its signature header.\<close>

definition sent_nonce :: "call \<Rightarrow> jsval" where
  "sent_nonce cl = obj_get (rq_form (sent cl)) ''nonce''"

definition sent_signature :: "call \<Rightarrow> string option" where
  "sent_signature cl = map_of (rq_headers (sent cl)) ''API-Sign''"

text \<open>The parameters an invocation passes, the empty object when omitted.\<close>

fun params_of :: "invocation \<Rightarrow> object" where
  "params_of (now, method, params, callback) = default_params params"

subsection \<open>A platform for worked examples\<close>

text \<open>A concrete platform on which calls can be evaluated. The parser knows a few
  bodies; hashing, encoding and serialisation are stand-ins of the right types (the
  general statements below hold for every platform). \<open>self\<close> is unbound, as on Node.\<close>

definition example_platform :: platform where
  "example_platform =
     \<lparr>json_parse = map_of
        [(''{}'', JObj []),
         (''null'', JNull),
         (''{\"error\":[\"EGeneral:Invalid arguments\"]}'',
            JObj [(''error'', JArr [JStr ''EGeneral:Invalid arguments''])]),
         (''{\"error\":[\"Unparseable\"]}'',
            JObj [(''error'', JArr [JStr ''Unparseable''])]),
         (''{\"error\":[],\"result\":{\"foo\":1}}'',
            JObj [(''error'', JArr []), (''result'', JObj [(''foo'', JNum 1)])])],
      json_stringify = (\<lambda>v. ''<json>''),
      qs_stringify = (\<lambda>kvs. concat (map fst kvs)),
      sha256 = (\<lambda>bs. take 32 bs),
      hmac_sha512 = (\<lambda>k bs. take 64 (k @ bs)),
      base64_decode = latin1_encode,
      base64_encode = latin1_decode,
      large_number_string = (\<lambda>n. ''1e+21''),
      global_self = None\<rparr>"

definition example_config :: client_config where
  "example_config = make_config ''key'' ''c2VjcmV0'' no_options"

section \<open>Basic facts\<close>

lemma obj_get_obj_set: "obj_get (obj_set p k v) k' = (if k' = k then v else obj_get p k')"
  by (induction p) (auto simp: obj_get_def)

lemma map_of_obj_set: "map_of (obj_set p k v) = (map_of p)(k \<mapsto> v)"
  by (induction p) auto

lemma excess_bits_small: "a < 2 ^ 53 \<Longrightarrow> excess_bits a = 0"
  by (simp add: excess_bits.simps)

text \<open>Integers of magnitude below \<open>2 ^ 53\<close> are doubles.\<close>

lemma round_to_double_exact: "\<bar>n\<bar> < 2 ^ 53 \<Longrightarrow> round_to_double n = n"
proof -
  assume h: "\<bar>n\<bar> < 2 ^ 53"
  then have "nat \<bar>n\<bar> < 2 ^ 53" by (simp add: nat_less_iff)
  then have "excess_bits (nat \<bar>n\<bar>) = 0" by (rule excess_bits_small)
  then show ?thesis by (simp add: round_to_double_def Let_def)
qed

text \<open>A digest survives the passage through a \<open>'binary'\<close> string.\<close>

lemma latin1_encode_decode: "latin1_encode (latin1_decode bs) = bs"
proof -
  have "word_of_nat (of_char (char_of (unat b)) :: nat) = b" for b :: byte
  proof -
    have "unat b < 256" using unsigned_less [of b] by simp
    then show ?thesis by (simp add: of_char_of)
  qed
  then show ?thesis
    by (simp add: latin1_encode_def latin1_decode_def map_idI)
qed

lemma latin1_encode_append: "latin1_encode (s @ t) = latin1_encode s @ latin1_encode t"
  by (simp add: latin1_encode_def)

lemma js_add_exact: "\<bar>a + b\<bar> < 2 ^ 53 \<Longrightarrow> js_add a b = a + b"
  by (simp add: js_add_def round_to_double_exact)

lemma js_mul_exact: "\<bar>a * b\<bar> < 2 ^ 53 \<Longrightarrow> js_mul a b = a * b"
  by (simp add: js_mul_def round_to_double_exact)

text \<open>Injecting the one-time password leaves the nonce alone.\<close>

lemma obj_get_otp_step_nonce: "obj_get (otp_step cfg p) ''nonce'' = obj_get p ''nonce''"
  by (simp add: otp_step_def obj_get_obj_set split: option.split)

lemma isArray_truthy: "isArray v \<Longrightarrow> truthy v"
  by (cases v) auto

lemma report_error_bound:
  "callback \<longrightarrow> self \<noteq> None \<Longrightarrow> report_error self callback e = failed_with callback e"
  by (auto simp: report_error_def split: option.splits)

lemma report_success_bound:
  "callback \<longrightarrow> self \<noteq> None \<Longrightarrow> report_success self callback v = succeeded_with callback v"
  by (auto simp: report_success_def split: option.splits)

text \<open>On an array of strings the loop ends with the last entry that starts with \<open>E\<close>,
  its first character dropped.\<close>

lemma forEach_error_strings:
  "forEach_error (map JStr ss) k =
     Inr (case filter (\<lambda>s. take 1 s = ''E'') (rev ss) of
            [] \<Rightarrow> k | s # rest \<Rightarrow> JStr (drop 1 s))"
  by (induction ss arbitrary: k) (auto split: list.splits)

section \<open>The signature\<close>

text \<open>
  Claim C2. For a numeric nonce that JavaScript prints with all its decimal digits
  (magnitude below \<open>2 ^ 53\<close>), the signature is the base64 text of
  HMAC-SHA512, keyed with the base64-decoded secret, of the bytes of the path followed by
  the raw 32-byte SHA-256 digest of the nonce's decimal string followed by the serialised
  parameters. The digest is appended as bytes, not as text, and the parameters are
  serialised in the order the object holds them (the list is handed to the serialiser
  as it is).
\<close>

theorem getMessageSignature_formula:
  assumes "\<bar>n\<bar> < 2 ^ 53"
  shows "getMessageSignature P cfg path params (JNum n) =
           base64_encode P
             (hmac_sha512 P (base64_decode P (cfg_secret cfg))
                (latin1_encode path @
                 sha256 P (utf8_encode (decimalString n @ qs_stringify P params))))"
  using assms
  by (simp add: getMessageSignature_def Let_def number_to_string_def
                latin1_encode_append latin1_encode_decode)

theorem getMessageSignature_formula_witness:
  "\<bar>1700000000000001 :: int\<bar> < 2 ^ 53 \<and>
   getMessageSignature example_platform example_config ''/0/private/Balance''
       [(''nonce'', JNum 1700000000000001)] (JNum 1700000000000001) =
     base64_encode example_platform
       (hmac_sha512 example_platform
          (base64_decode example_platform (cfg_secret example_config))
          (latin1_encode ''/0/private/Balance'' @
           sha256 example_platform
             (utf8_encode (decimalString 1700000000000001 @
                qs_stringify example_platform [(''nonce'', JNum 1700000000000001)]))))"
proof -
  have h: "\<bar>1700000000000001 :: int\<bar> < 2 ^ 53" by simp
  show ?thesis
    using h getMessageSignature_formula [OF h, of example_platform example_config
        "''/0/private/Balance''" "[(''nonce'', JNum 1700000000000001)]"]
    by simp
qed

section \<open>Dispatch\<close>

text \<open>
  Claim C5. A method name in neither catalog makes \<open>api\<close> throw, in both clients, an
  error whose message names the method. The throw is the result of the call itself: no
  promise is returned that could reject later, and no request is built or sent.
\<close>

theorem api_invalid_method:
  assumes "method \<notin> set AVAILABLE_METHODS_public"
      and "method \<notin> set AVAILABLE_METHODS_private"
  shows "cls_api P now c method params callback =
           Inl (Error (method @ '' is not a valid API method.'')) \<and>
         api P now cfg method params callback =
           Inl (Error (method @ '' is not a valid API method.''))"
  using assms by (simp add: cls_api_def api_def)

theorem api_invalid_method_witness:
  "''Foo'' \<notin> set AVAILABLE_METHODS_public \<and> ''Foo'' \<notin> set AVAILABLE_METHODS_private \<and>
   cls_api example_platform 1700000000000
       (KrakenClient_class 1700000000000 ''key'' ''c2VjcmV0'' None) ''Foo'' None True =
     Inl (Error ''Foo is not a valid API method.'') \<and>
   api example_platform 1700000000000 example_config ''Foo'' None True =
     Inl (Error ''Foo is not a valid API method.'')"
proof -
  have h1: "''Foo'' \<notin> set AVAILABLE_METHODS_public"
    by (simp add: AVAILABLE_METHODS_public_def)
  have h2: "''Foo'' \<notin> set AVAILABLE_METHODS_private"
    by (simp add: AVAILABLE_METHODS_private_def)
  show ?thesis
    using h1 h2 api_invalid_method [OF h1 h2, of example_platform 1700000000000
        "KrakenClient_class 1700000000000 ''key'' ''c2VjcmV0'' None" None True example_config]
    by simp
qed

section \<open>Nonces\<close>

lemma cls_privateMethod_counter:
  assumes "\<not> truthy (obj_get (default_params params) ''nonce'')"
      and "0 < lastNonce c" and "lastNonce c + 1 < 2 ^ 53"
  shows "lastNonce (fst (cls_privateMethod P now c method params callback)) = lastNonce c + 1"
    and "sent_nonce (snd (cls_privateMethod P now c method params callback)) =
           JNum (lastNonce c + 1)"
  using assms
  by (simp_all add: cls_privateMethod_def cls_nonce_step_def Let_def js_add_exact
        obj_get_otp_step_nonce obj_get_obj_set sent_nonce_def rawRequest_def)

lemma cls_private_calls_nonces:
  assumes "\<forall>inv \<in> set invs. \<not> truthy (obj_get (params_of inv) ''nonce'')"
      and "0 < lastNonce c" and "lastNonce c + int (length invs) < 2 ^ 53"
  shows "map sent_nonce (snd (cls_private_calls P c invs)) =
           map (\<lambda>i. JNum (lastNonce c + 1 + int i)) [0 ..< length invs]"
  using assms
proof (induction invs arbitrary: c)
  case Nil
  then show ?case by simp
next
  case (Cons inv invs)
  obtain t m ps cb where inv: "inv = (t, m, ps, cb)"
    by (cases inv) auto
  define c1 where "c1 = fst (cls_privateMethod P t c m ps cb)"
  define cl where "cl = snd (cls_privateMethod P t c m ps cb)"
  from Cons.prems inv have f: "\<not> truthy (obj_get (default_params ps) ''nonce'')"
    by simp
  from Cons.prems have b: "lastNonce c + 1 < 2 ^ 53" by simp
  have l1: "lastNonce c1 = lastNonce c + 1"
    unfolding c1_def using f Cons.prems(2) b by (rule cls_privateMethod_counter(1))
  have n1: "sent_nonce cl = JNum (lastNonce c + 1)"
    unfolding cl_def using f Cons.prems(2) b by (rule cls_privateMethod_counter(2))
  have ih: "map sent_nonce (snd (cls_private_calls P c1 invs)) =
              map (\<lambda>i. JNum (lastNonce c1 + 1 + int i)) [0 ..< length invs]"
  proof (rule Cons.IH)
    show "\<forall>inv \<in> set invs. \<not> truthy (obj_get (params_of inv) ''nonce'')"
      using Cons.prems(1) by simp
    show "0 < lastNonce c1" using l1 Cons.prems(2) by simp
    show "lastNonce c1 + int (length invs) < 2 ^ 53" using l1 Cons.prems(3) by simp
  qed
  have step: "snd (cls_private_calls P c (inv # invs)) = cl # snd (cls_private_calls P c1 invs)"
    by (simp add: inv c1_def cl_def Let_def split: prod.splits)
  have "map (\<lambda>i. JNum (lastNonce c + 1 + int i)) [0 ..< length (inv # invs)] =
          JNum (lastNonce c + 1) # map (\<lambda>i. JNum (lastNonce c1 + 1 + int i)) [0 ..< length invs]"
    by (simp add: map_upt_Suc l1 add.assoc del: upt_Suc)
  then show ?case using step n1 ih by simp
qed

lemma strictly_increasing_run: "sorted_wrt (<) (map (\<lambda>i. a + int i) [0 ..< n])"
  by (simp add: sorted_wrt_map sorted_wrt_upt)

lemma KrakenClient_class_lastNonce:
  "0 < t0 \<Longrightarrow> t0 * 1000 < 2 ^ 53 \<Longrightarrow> lastNonce (KrakenClient_class t0 k s opts) = t0 * 1000"
  by (simp add: KrakenClient_class_def Let_def js_mul_exact)

text \<open>
  The class-based client, constructed when the clock reads \<open>t0\<close> milliseconds after the
  epoch, answers \<open>N\<close> private calls that bring no nonce with the nonces
  \<open>t0 * 1000 + 1, ..., t0 * 1000 + N\<close>, as long as these stay below \<open>2 ^ 53\<close>, where
  adding one to a double is exact.
\<close>

lemma class_nonces_strictly_increasing:
  assumes "\<forall>inv \<in> set invs. \<not> truthy (obj_get (params_of inv) ''nonce'')"
      and "0 < t0" and "t0 * 1000 + int (length invs) < 2 ^ 53"
  shows "map sent_nonce (snd (cls_private_calls P (KrakenClient_class t0 k s opts) invs)) =
           map (\<lambda>i. JNum (t0 * 1000 + 1 + int i)) [0 ..< length invs] \<and>
         sorted_wrt (<) (map (\<lambda>i. t0 * 1000 + 1 + int i) [0 ..< length invs])"
proof -
  have b: "t0 * 1000 < 2 ^ 53" using assms(3) by linarith
  have l: "lastNonce (KrakenClient_class t0 k s opts) = t0 * 1000"
    using assms(2) b by (rule KrakenClient_class_lastNonce)
  have "map sent_nonce (snd (cls_private_calls P (KrakenClient_class t0 k s opts) invs)) =
          map (\<lambda>i. JNum (lastNonce (KrakenClient_class t0 k s opts) + 1 + int i))
              [0 ..< length invs]"
    using assms by (intro cls_private_calls_nonces) (simp_all add: l)
  then show ?thesis by (simp add: l strictly_increasing_run)
qed

text \<open>
  Claim C3, at the input where the closure-based client breaks it: two private calls
  without a nonce, made while the clock reads the same millisecond, transmit the same
  nonce. \<open>privateMethod\<close> multiplies the clock reading by 1000 at every call and keeps no
  counter.
\<close>

theorem closure_nonces_repeat:
  "map sent_nonce
     (private_calls example_platform example_config
        [(1700000000000, ''Balance'', None, False), (1700000000000, ''Balance'', None, False)]) =
   [JNum 1700000000000000, JNum 1700000000000000]"
proof -
  have e: "js_mul 1700000000000 1000 = 1700000000000000"
    by (simp add: js_mul_exact)
  show ?thesis
    by (simp add: private_calls_def privateMethod_def Let_def obj_get_def e sent_nonce_def
          rawRequest_def otp_step_def example_config_def make_config_def no_options_def)
qed

text \<open>
  Claim C8. A private call whose parameters hold no nonce (or a falsy one) allocates one
  nonce: the counter of the class-based client moves to it, the closure-based client
  reads it off the clock. The same value is in the form that is transmitted and is the
  nonce passed to the signature; the signature is computed over the path of the request
  and over the transmitted form, after the nonce and the one-time password were written
  into it.
\<close>

theorem private_call_allocates_one_nonce:
  assumes "\<not> truthy (obj_get (default_params params) ''nonce'')"
  shows "(let fresh = (if lastNonce c \<noteq> 0 then js_add (lastNonce c) 1 else js_mul now 1000);
              path = ''/'' @ cfg_version (config c) @ ''/private/'' @ mname;
              (c', cl) = cls_privateMethod P now c mname params callback;
              form = rq_form (sent cl)
          in lastNonce c' = fresh \<and> config c' = config c \<and>
             form = otp_step (config c) (obj_set (default_params params) ''nonce'' (JNum fresh)) \<and>
             obj_get form ''nonce'' = JNum fresh \<and>
             sent_signature cl = Some (getMessageSignature P (config c) path form (JNum fresh)) \<and>
             rq_url (sent cl) = cfg_url (config c) @ path) \<and>
         (let fresh = js_mul now 1000;
              path = ''/'' @ cfg_version cfg @ ''/private/'' @ mname;
              cl = privateMethod P now cfg mname params callback;
              form = rq_form (sent cl)
          in form = otp_step cfg (obj_set (default_params params) ''nonce'' (JNum fresh)) \<and>
             obj_get form ''nonce'' = JNum fresh \<and>
             sent_signature cl = Some (getMessageSignature P cfg path form (JNum fresh)) \<and>
             rq_url (sent cl) = cfg_url cfg @ path)"
  using assms
  by (simp add: cls_privateMethod_def privateMethod_def cls_nonce_step_def Let_def
        obj_get_otp_step_nonce obj_get_obj_set sent_signature_def rawRequest_def)

theorem private_call_allocates_one_nonce_witness:
  "\<not> truthy (obj_get (default_params (Some [(''asset'', JStr ''XBT'')])) ''nonce'') \<and>
   (let (c', cl) = cls_privateMethod example_platform 1700000000123
                     \<lparr>config = example_config, lastNonce = 1700000000000000\<rparr>
                     ''Balance'' (Some [(''asset'', JStr ''XBT'')]) False
    in lastNonce c' = 1700000000000001 \<and>
       rq_form (sent cl) = [(''asset'', JStr ''XBT''), (''nonce'', JNum 1700000000000001)] \<and>
       sent_signature cl =
         Some (getMessageSignature example_platform example_config ''/0/private/Balance''
                 [(''asset'', JStr ''XBT''), (''nonce'', JNum 1700000000000001)]
                 (JNum 1700000000000001)))"
proof -
  have h: "\<not> truthy (obj_get (default_params (Some [(''asset'', JStr ''XBT'')])) ''nonce'')"
    by (simp add: obj_get_def)
  have e: "js_add 1700000000000000 1 = 1700000000000001"
    by (simp add: js_add_exact)
  show ?thesis
    using h private_call_allocates_one_nonce [OF h, where P = example_platform
        and c = "\<lparr>config = example_config, lastNonce = 1700000000000000\<rparr>"
        and now = 1700000000123 and mname = "''Balance''" and callback = False
        and cfg = example_config]
    by (simp add: e Let_def example_config_def make_config_def no_options_def otp_step_def
          split: prod.splits)
qed

text \<open>
  Claim C7, as the code has it: a nonce that the caller supplies and that is truthy is
  transmitted and signed as it is, whatever the counter holds, and the client (counter
  and configuration) is after the call what it was before. The catalog is a constant.
\<close>

theorem truthy_nonce_used_as_is:
  assumes "truthy (obj_get (default_params params) ''nonce'')"
  shows "(let path = ''/'' @ cfg_version (config c) @ ''/private/'' @ mname;
              (c', cl) = cls_privateMethod P now c mname params callback;
              form = rq_form (sent cl)
          in c' = c \<and>
             form = otp_step (config c) (default_params params) \<and>
             obj_get form ''nonce'' = obj_get (default_params params) ''nonce'' \<and>
             sent_signature cl =
               Some (getMessageSignature P (config c) path form
                       (obj_get (default_params params) ''nonce''))) \<and>
         (let path = ''/'' @ cfg_version cfg @ ''/private/'' @ mname;
              cl = privateMethod P now cfg mname params callback;
              form = rq_form (sent cl)
          in form = otp_step cfg (default_params params) \<and>
             obj_get form ''nonce'' = obj_get (default_params params) ''nonce'' \<and>
             sent_signature cl =
               Some (getMessageSignature P cfg path form
                       (obj_get (default_params params) ''nonce'')))"
  using assms
  by (simp add: cls_privateMethod_def privateMethod_def cls_nonce_step_def Let_def
        obj_get_otp_step_nonce sent_signature_def rawRequest_def)

theorem truthy_nonce_used_as_is_witness:
  "truthy (obj_get (default_params (Some [(''nonce'', JNum 5)])) ''nonce'') \<and>
   (let (c', cl) = cls_privateMethod example_platform 1700000000123
                     \<lparr>config = example_config, lastNonce = 1700000000000000\<rparr>
                     ''Balance'' (Some [(''nonce'', JNum 5)]) False
    in c' = \<lparr>config = example_config, lastNonce = 1700000000000000\<rparr> \<and>
       rq_form (sent cl) = [(''nonce'', JNum 5)])"
proof -
  have h: "truthy (obj_get (default_params (Some [(''nonce'', JNum 5)])) ''nonce'')"
    by (simp add: obj_get_def)
  show ?thesis
    using h truthy_nonce_used_as_is [OF h, where P = example_platform
        and c = "\<lparr>config = example_config, lastNonce = 1700000000000000\<rparr>"
        and now = 1700000000123 and mname = "''Balance''" and callback = False
        and cfg = example_config]
    by (simp add: Let_def example_config_def make_config_def no_options_def otp_step_def
          split: prod.splits)
qed

text \<open>The claim as stated fails for a nonce of \<open>0\<close>: the call replaces it and advances
  the counter.\<close>

theorem zero_nonce_replaced:
  "cls_privateMethod example_platform 1700000000123
      \<lparr>config = example_config, lastNonce = 1700000000000000\<rparr>
      ''Balance'' (Some [(''nonce'', JNum 0)]) False =
   (\<lparr>config = example_config, lastNonce = 1700000000000001\<rparr>,
    \<lparr>sent = \<lparr>rq_url = ''https://api.kraken.com/0/private/Balance'',
              rq_method = ''POST'',
              rq_headers =
                [(''API-Key'', ''key''),
                 (''API-Sign'',
                  getMessageSignature example_platform example_config ''/0/private/Balance''
                    [(''nonce'', JNum 1700000000000001)] (JNum 1700000000000001)),
                 (''User-Agent'', ''Kraken Javascript API Client'')],
              rq_form = [(''nonce'', JNum 1700000000000001)],
              rq_timeout = 5000\<rparr>,
     with_callback = False\<rparr>)"
proof -
  have e: "js_add 1700000000000000 1 = 1700000000000001"
    by (simp add: js_add_exact)
  show ?thesis
    by (simp add: cls_privateMethod_def cls_nonce_step_def Let_def obj_get_def e otp_step_def
          rawRequest_def example_config_def make_config_def no_options_def)
qed

text \<open>
  Claim C9. A nonce that is present in the parameters but falsy (\<open>0\<close>, the empty string,
  \<open>null\<close>, \<open>false\<close>, \<open>NaN\<close>) is overwritten. The class-based client, its counter positive
  and below \<open>2 ^ 53\<close>, transmits the counter plus one and advances the counter to it; the
  transmitted nonce is truthy and so is not the caller's value. The closure-based
  client, which has no counter, transmits the clock reading times 1000.
\<close>

theorem falsy_nonce_treated_as_absent:
  assumes "map_of (default_params params) ''nonce'' = Some v"
      and "\<not> truthy v"
      and "0 < lastNonce c" and "lastNonce c + 1 < 2 ^ 53"
  shows "(let (c', cl) = cls_privateMethod P now c mname params callback
          in sent_nonce cl = JNum (lastNonce c + 1) \<and> sent_nonce cl \<noteq> v \<and>
             truthy (sent_nonce cl) \<and> lastNonce c' = lastNonce c + 1) \<and>
         sent_nonce (privateMethod P now cfg mname params callback) = JNum (js_mul now 1000)"
proof -
  from assms(1,2) have f: "\<not> truthy (obj_get (default_params params) ''nonce'')"
    by (simp add: obj_get_def)
  from assms(3,4) have a: "js_add (lastNonce c) 1 = lastNonce c + 1"
    by (simp add: js_add_exact)
  from assms(2,3) have n: "JNum (lastNonce c + 1) \<noteq> v"
    by (cases v) auto
  show ?thesis
    using f a n assms(3)
    by (simp add: cls_privateMethod_def privateMethod_def cls_nonce_step_def Let_def
          obj_get_otp_step_nonce obj_get_obj_set sent_nonce_def rawRequest_def)
qed

theorem falsy_nonce_treated_as_absent_witness:
  "map_of (default_params (Some [(''nonce'', JNum 0)])) ''nonce'' = Some (JNum 0) \<and>
   \<not> truthy (JNum 0) \<and> (0::int) < 1700000000000000 \<and>
   (1700000000000000::int) + 1 < 2 ^ 53 \<and>
   (let (c', cl) = cls_privateMethod example_platform 1700000000123
                     \<lparr>config = example_config, lastNonce = 1700000000000000\<rparr>
                     ''Balance'' (Some [(''nonce'', JNum 0)]) False
    in sent_nonce cl = JNum 1700000000000001 \<and> lastNonce c' = 1700000000000001)"
proof -
  have h1: "map_of (default_params (Some [(''nonce'', JNum 0)])) ''nonce'' = Some (JNum 0)"
    by simp
  have h2: "\<not> truthy (JNum 0)" by simp
  have h3: "0 < lastNonce \<lparr>config = example_config, lastNonce = 1700000000000000\<rparr>"
    by simp
  have h4: "lastNonce \<lparr>config = example_config, lastNonce = 1700000000000000\<rparr> + 1 < 2 ^ 53"
    by simp
  show ?thesis
    using falsy_nonce_treated_as_absent [OF h1 h2 h3 h4, where P = example_platform
        and now = 1700000000123 and mname = "''Balance''" and callback = False
        and cfg = example_config]
    by (simp add: Let_def split: prod.splits)
qed

section \<open>Completion\<close>

lemma parse_examples:
  "json_parse example_platform ''not json'' = None"
  "json_parse example_platform ''{\"error\":[\"EGeneral:Invalid arguments\"]}'' =
     Some (JObj [(''error'', JArr [JStr ''EGeneral:Invalid arguments''])])"
  "json_parse example_platform ''{\"error\":[\"Unparseable\"]}'' =
     Some (JObj [(''error'', JArr [JStr ''Unparseable''])])"
  "json_parse example_platform ''{\"error\":[],\"result\":{\"foo\":1}}'' =
     Some (JObj [(''error'', JArr []), (''result'', JObj [(''foo'', JNum 1)])])"
  by (simp_all add: example_platform_def)

text \<open>
  The handler where the callback can be entered (there is none, or \<open>self\<close> is bound, as
  in the closure-based client). Each failure - a transport error, a body that does not
  parse, an error array whose entries are all strings - is reported once: to the
  callback as \<open>(error, null)\<close>, the promise then resolving with no value, or, without a
  callback, as the rejection of the promise. A success resolves the promise with the
  value in either case and, when there is a callback, also hands \<open>(null, value)\<close> to it.
\<close>

lemma completion_channels:
  assumes "callback \<longrightarrow> self \<noteq> None"
  shows
    "(truthy error \<longrightarrow>
        rawRequest_callback P self callback error body =
          failed_with callback (Error (''Error in server response: '' @ json_stringify P error))) \<and>
     (\<not> truthy error \<and> json_parse P body = None \<longrightarrow>
        rawRequest_callback P self callback error body =
          failed_with callback (Error (''Could not understand response from server: '' @ body))) \<and>
     (\<not> truthy error \<and> json_parse P body = Some data \<and> get_prop data ''error'' = Inr err \<and>
      isArray err \<and> elements err \<noteq> [] \<and> forEach_error (elements err) JNull = Inr k \<longrightarrow>
        rawRequest_callback P self callback error body =
          failed_with callback
            (if truthy k then Error (''Kraken API returned error: '' @ to_string P k)
             else Error (''Kraken API returned an unknown error: '' @ json_stringify P err))) \<and>
     (\<not> truthy error \<and> json_parse P body = Some data \<and> get_prop data ''error'' = Inr err \<and>
      \<not> (isArray err \<and> elements err \<noteq> []) \<and> get_prop data ''result'' = Inr res \<longrightarrow>
        rawRequest_callback P self callback error body =
          succeeded_with callback (if truthy res then res else data))"
proof (intro conjI impI)
  assume "truthy error"
  then show "rawRequest_callback P self callback error body =
          failed_with callback (Error (''Error in server response: '' @ json_stringify P error))"
    using assms by (simp add: rawRequest_callback_def report_error_bound)
next
  assume "\<not> truthy error \<and> json_parse P body = None"
  then show "rawRequest_callback P self callback error body =
          failed_with callback (Error (''Could not understand response from server: '' @ body))"
    using assms by (simp add: rawRequest_callback_def report_error_bound)
next
  assume h: "\<not> truthy error \<and> json_parse P body = Some data \<and> get_prop data ''error'' = Inr err \<and>
      isArray err \<and> elements err \<noteq> [] \<and> forEach_error (elements err) JNull = Inr k"
  then have "truthy err" by (simp add: isArray_truthy)
  with h show "rawRequest_callback P self callback error body =
          failed_with callback
            (if truthy k then Error (''Kraken API returned error: '' @ to_string P k)
             else Error (''Kraken API returned an unknown error: '' @ json_stringify P err))"
    using assms by (simp add: rawRequest_callback_def on_parsed_def report_error_bound)
next
  assume h: "\<not> truthy error \<and> json_parse P body = Some data \<and> get_prop data ''error'' = Inr err \<and>
      \<not> (isArray err \<and> elements err \<noteq> []) \<and> get_prop data ''result'' = Inr res"
  then show "rawRequest_callback P self callback error body =
          succeeded_with callback (if truthy res then res else data)"
    using assms
    by (auto simp add: rawRequest_callback_def on_parsed_def report_success_bound js_or_def)
qed

lemma completion_channels_examples:
  "rawRequest_callback example_platform (Some (JObj [])) True (JStr ''ETIMEDOUT'') [] =
     \<lparr>promise = Resolved JUndefined,
      callback_calls = [(Some (Error ''Error in server response: <json>''), JNull)],
      uncaught = None\<rparr> \<and>
   rawRequest_callback example_platform None False JNull ''not json'' =
     \<lparr>promise = Rejected (Error ''Could not understand response from server: not json''),
      callback_calls = [], uncaught = None\<rparr> \<and>
   rawRequest_callback example_platform (Some (JObj [])) True JNull
       ''{\"error\":[\"EGeneral:Invalid arguments\"]}'' =
     \<lparr>promise = Resolved JUndefined,
      callback_calls =
        [(Some (Error ''Kraken API returned error: General:Invalid arguments''), JNull)],
      uncaught = None\<rparr> \<and>
   rawRequest_callback example_platform None False JNull ''{\"error\":[\"Unparseable\"]}'' =
     \<lparr>promise = Rejected (Error ''Kraken API returned an unknown error: <json>''),
      callback_calls = [], uncaught = None\<rparr> \<and>
   rawRequest_callback example_platform None False JNull
       ''{\"error\":[],\"result\":{\"foo\":1}}'' =
     \<lparr>promise = Resolved (JObj [(''foo'', JNum 1)]), callback_calls = [], uncaught = None\<rparr>"
proof -
  have b: "True \<longrightarrow> Some (JObj []) \<noteq> None" by simp
  have n: "False \<longrightarrow> (None :: jsval option) \<noteq> None" by simp
  have s: "json_stringify example_platform v = ''<json>''" for v
    by (simp add: example_platform_def)
  have 1: "rawRequest_callback example_platform (Some (JObj [])) True (JStr ''ETIMEDOUT'') [] =
     \<lparr>promise = Resolved JUndefined,
      callback_calls = [(Some (Error ''Error in server response: <json>''), JNull)],
      uncaught = None\<rparr>"
    using completion_channels [OF b, where P = example_platform and error = "JStr ''ETIMEDOUT''"
        and body = "[]"]
    by (simp add: s)
  have 2: "rawRequest_callback example_platform None False JNull ''not json'' =
     \<lparr>promise = Rejected (Error ''Could not understand response from server: not json''),
      callback_calls = [], uncaught = None\<rparr>"
    using completion_channels [OF n, where P = example_platform and error = JNull
        and body = "''not json''"]
    by (simp add: parse_examples)
  have 3: "rawRequest_callback example_platform (Some (JObj [])) True JNull
       ''{\"error\":[\"EGeneral:Invalid arguments\"]}'' =
     \<lparr>promise = Resolved JUndefined,
      callback_calls =
        [(Some (Error ''Kraken API returned error: General:Invalid arguments''), JNull)],
      uncaught = None\<rparr>"
    using completion_channels [OF b, where P = example_platform and error = JNull
        and body = "''{\"error\":[\"EGeneral:Invalid arguments\"]}''"
        and data = "JObj [(''error'', JArr [JStr ''EGeneral:Invalid arguments''])]"
        and err = "JArr [JStr ''EGeneral:Invalid arguments'']"
        and k = "JStr ''General:Invalid arguments''"]
    by (simp add: parse_examples obj_get_def)
  have 4: "rawRequest_callback example_platform None False JNull ''{\"error\":[\"Unparseable\"]}'' =
     \<lparr>promise = Rejected (Error ''Kraken API returned an unknown error: <json>''),
      callback_calls = [], uncaught = None\<rparr>"
    using completion_channels [OF n, where P = example_platform and error = JNull
        and body = "''{\"error\":[\"Unparseable\"]}''"
        and data = "JObj [(''error'', JArr [JStr ''Unparseable''])]"
        and err = "JArr [JStr ''Unparseable'']"
        and k = "JNull"]
    by (simp add: parse_examples obj_get_def s)
  have 5: "rawRequest_callback example_platform None False JNull
       ''{\"error\":[],\"result\":{\"foo\":1}}'' =
     \<lparr>promise = Resolved (JObj [(''foo'', JNum 1)]), callback_calls = [], uncaught = None\<rparr>"
    using completion_channels [OF n, where P = example_platform and error = JNull
        and body = "''{\"error\":[],\"result\":{\"foo\":1}}''"
        and data = "JObj [(''error'', JArr []), (''result'', JObj [(''foo'', JNum 1)])]"
        and err = "JArr []"
        and res = "JObj [(''foo'', JNum 1)]"]
    by (simp add: parse_examples obj_get_def)
  from 1 2 3 4 5 show ?thesis by blast
qed

text \<open>On a success with a callback the promise resolves with the value that the callback
  receives as well.\<close>

lemma success_reaches_both_channels:
  "complete example_platform (publicMethod example_config ''Time'' None True) JNull
       ''{\"error\":[],\"result\":{\"foo\":1}}'' =
     \<lparr>promise = Resolved (JObj [(''foo'', JNum 1)]),
      callback_calls = [(None, JObj [(''foo'', JNum 1)])], uncaught = None\<rparr>"
  by (simp add: complete_def publicMethod_def rawRequest_def rawRequest_callback_def
        parse_examples on_parsed_def obj_get_def report_success_def js_or_def)

text \<open>The class-based handler names \<open>self\<close> without declaring it (lines 168, 181, 204, 213
  and 222). On a host that binds no such global, every failure of a call that has a
  callback resolves the promise with no value and then stops with a \<open>ReferenceError\<close>,
  raised while the arguments of \<open>callback.call\<close> are evaluated: the promise does not
  reject and the callback is not entered.\<close>

lemma report_error_unbound:
  "report_error None True e =
     \<lparr>promise = Resolved JUndefined, callback_calls = [], uncaught = Some ReferenceError\<rparr>"
  by (simp add: report_error_def)

lemma cls_failure_with_callback_lost:
  assumes "global_self P = None" and "with_callback cl"
  shows "truthy error \<or> json_parse P body = None \<Longrightarrow>
           cls_complete P cl error body =
             \<lparr>promise = Resolved JUndefined, callback_calls = [],
              uncaught = Some ReferenceError\<rparr>"
  using assms
  by (auto simp: cls_complete_def rawRequest_callback_def report_error_unbound)

text \<open>The closure-based handler, which binds \<open>self\<close> (line 243), hands the same failure
  to the callback.\<close>

lemma closure_callback_entered:
  "complete example_platform (publicMethod example_config ''Time'' None True)
       (JStr ''ETIMEDOUT'') [] =
     \<lparr>promise = Resolved JUndefined,
      callback_calls = [(Some (Error ''Error in server response: <json>''), JNull)],
      uncaught = None\<rparr>"
  by (simp add: complete_def publicMethod_def rawRequest_def rawRequest_callback_def
        report_error_def example_platform_def)

text \<open>
  Claim C4, at the input where the class-based client breaks it: a public call \<open>Time\<close>
  made with a callback, on a host without a global \<open>self\<close>, whose transport fails. The
  promise resolves with no value, the callback is never called, and the
  \<open>ReferenceError\<close> escapes the handler: the failure is reported through neither
  channel.
\<close>

theorem class_callback_not_entered:
  "cls_complete example_platform (publicMethod example_config ''Time'' None True)
       (JStr ''ETIMEDOUT'') [] =
     \<lparr>promise = Resolved JUndefined, callback_calls = [], uncaught = Some ReferenceError\<rparr>"
  by (simp add: cls_complete_def publicMethod_def rawRequest_def rawRequest_callback_def
        report_error_def example_platform_def)

section \<open>Normalisation of the parsed body\<close>

lemma get_prop_total: "get_prop data k = Inr v \<Longrightarrow> \<exists>w. get_prop data k' = Inr w"
  by (cases data) auto

lemma get_prop_defined: "get_prop data k = Inr v \<Longrightarrow> data \<noteq> JUndefined \<and> data \<noteq> JNull"
  by (cases data) auto

lemma on_parsed_success:
  assumes "get_prop data ''error'' = Inr err" and "\<not> (isArray err \<and> elements err \<noteq> [])"
      and "get_prop data ''result'' = Inr res"
  shows "on_parsed P self callback data =
           report_success self callback (if truthy res then res else data)"
  using assms by (auto simp: on_parsed_def js_or_def)

text \<open>
  Claim C1, at the input where the code breaks it: of two entries that start with \<open>E\<close>
  the second becomes the reported code, not the first. The \<open>return false\<close> in the
  callback of \<open>forEach\<close> does not end the loop, so each later match overwrites
  \<open>krakenError\<close> (lemma \<open>forEach_error_strings\<close>).
\<close>

theorem remote_error_takes_last_entry:
  "on_parsed P self False (JObj [(''error'', JArr [JStr ''EFirst'', JStr ''ESecond''])]) =
     \<lparr>promise = Rejected (Error ''Kraken API returned error: Second''),
      callback_calls = [], uncaught = None\<rparr>"
  by (simp add: on_parsed_def obj_get_def report_error_def)

text \<open>
  Claim C6, as the code has it. A body whose \<open>error\<close> field can be read and is not a
  non-empty array resolves the promise with \<open>data.result || data\<close>: the \<open>result\<close> field
  when it is truthy, the whole body when the field is missing or falsy. A callback
  receives nothing but that value.
\<close>

theorem success_yields_truthy_result_or_body:
  assumes "get_prop data ''error'' = Inr err"
      and "\<not> (isArray err \<and> elements err \<noteq> [])"
  shows "\<exists>res. get_prop data ''result'' = Inr res \<and>
           promise (on_parsed P self callback data) =
             Resolved (if truthy res then res else data) \<and>
           (\<forall>c \<in> set (callback_calls (on_parsed P self callback data)).
              c = (None, if truthy res then res else data))"
proof -
  from assms(1) obtain res where r: "get_prop data ''result'' = Inr res"
    using get_prop_total by blast
  have "on_parsed P self callback data =
          report_success self callback (if truthy res then res else data)"
    using assms r by (rule on_parsed_success)
  then show ?thesis
    using r by (auto simp: report_success_def split: option.splits)
qed

theorem success_yields_truthy_result_or_body_witness:
  "promise (on_parsed example_platform None False
      (JObj [(''error'', JArr []), (''result'', JObj [(''foo'', JNum 1)])])) =
     Resolved (JObj [(''foo'', JNum 1)])"
proof -
  have h1: "get_prop (JObj [(''error'', JArr []), (''result'', JObj [(''foo'', JNum 1)])])
              ''error'' = Inr (JArr [])"
    by (simp add: obj_get_def)
  have h2: "\<not> (isArray (JArr []) \<and> elements (JArr []) \<noteq> [])" by simp
  show ?thesis
    using success_yields_truthy_result_or_body [OF h1 h2, where P = example_platform
        and self = None and callback = False]
    by (auto simp: obj_get_def)
qed

text \<open>The claim as stated fails for a result that is present and falsy: the whole body is
  delivered in its place.\<close>

theorem falsy_result_yields_body:
  "on_parsed example_platform None False (JObj [(''error'', JArr []), (''result'', JNum 0)]) =
     \<lparr>promise = Resolved (JObj [(''error'', JArr []), (''result'', JNum 0)]),
      callback_calls = [], uncaught = None\<rparr>"
  by (simp add: on_parsed_def obj_get_def report_success_def js_or_def)

lemma on_parsed_error_delivered:
  assumes "promise (on_parsed P self callback data) = Rejected e \<or>
           (Some e, x) \<in> set (callback_calls (on_parsed P self callback data))"
  shows "\<exists>y ys. get_prop data ''error'' = Inr (JArr (y # ys))"
proof (cases "get_prop data ''error''")
  case (Inl a)
  with assms show ?thesis by (simp add: on_parsed_def escaped_def)
next
  case (Inr err)
  show ?thesis
  proof (cases "isArray err \<and> elements err \<noteq> []")
    case True
    then obtain y ys where "err = JArr (y # ys)"
      by (cases err; cases "elements err") auto
    with Inr show ?thesis by simp
  next
    case False
    from Inr obtain res where r: "get_prop data ''result'' = Inr res"
      using get_prop_total by blast
    have "on_parsed P self callback data =
          report_success self callback (if truthy res then res else data)"
      using Inr False r by (rule on_parsed_success)
    with assms show ?thesis
      by (auto simp: report_success_def split: option.splits if_splits)
  qed
qed

text \<open>
  Claim C10. A body whose \<open>error\<close> field is missing, is not an array or is an empty array
  is a success: the promise resolves with a value and no error reaches a callback.
  Conversely an error that rejects the promise or reaches the callback stems from a
  non-empty array under \<open>error\<close>. (The field of \<open>null\<close> cannot be read: that body ends
  the handler with a \<open>TypeError\<close> and is not among the bodies the statement covers.)
\<close>

theorem only_nonempty_error_array_fails:
  "(get_prop data ''error'' = Inr err \<and> \<not> (isArray err \<and> elements err \<noteq> []) \<longrightarrow>
      (\<exists>v. promise (on_parsed P self callback data) = Resolved v \<and> v \<noteq> JUndefined) \<and>
      (\<forall>c \<in> set (callback_calls (on_parsed P self callback data)). fst c = None)) \<and>
   (promise (on_parsed P self callback data) = Rejected e \<or>
    (Some e, x) \<in> set (callback_calls (on_parsed P self callback data)) \<longrightarrow>
      (\<exists>y ys. get_prop data ''error'' = Inr (JArr (y # ys))))"
proof (intro conjI impI)
  assume h: "get_prop data ''error'' = Inr err \<and> \<not> (isArray err \<and> elements err \<noteq> [])"
  then obtain res where r: "get_prop data ''result'' = Inr res"
    using get_prop_total by blast
  have d: "data \<noteq> JUndefined" using h get_prop_defined by blast
  have s: "on_parsed P self callback data =
          report_success self callback (if truthy res then res else data)"
    using h r by (intro on_parsed_success) auto
  show "\<exists>v. promise (on_parsed P self callback data) = Resolved v \<and> v \<noteq> JUndefined"
    using s d by (auto simp: report_success_def split: option.splits)
  show "\<forall>c \<in> set (callback_calls (on_parsed P self callback data)). fst c = None"
    using s by (auto simp: report_success_def split: option.splits)
next
  assume "promise (on_parsed P self callback data) = Rejected e \<or>
    (Some e, x) \<in> set (callback_calls (on_parsed P self callback data))"
  then show "\<exists>y ys. get_prop data ''error'' = Inr (JArr (y # ys))"
    by (rule on_parsed_error_delivered)
qed

theorem only_nonempty_error_array_fails_witness:
  "promise (on_parsed example_platform None False
      (JObj [(''error'', JStr ''EGeneral:Internal error'')])) =
     Resolved (JObj [(''error'', JStr ''EGeneral:Internal error'')]) \<and>
   promise (on_parsed example_platform None False
      (JObj [(''error'', JArr [JStr ''EGeneral:Invalid arguments''])])) =
     Rejected (Error ''Kraken API returned error: General:Invalid arguments'') \<and>
   (\<exists>y ys. get_prop (JObj [(''error'', JArr [JStr ''EGeneral:Invalid arguments''])]) ''error'' =
      Inr (JArr (y # ys)))"
proof -
  have a: "get_prop (JObj [(''error'', JStr ''EGeneral:Internal error'')]) ''error'' =
             Inr (JStr ''EGeneral:Internal error'') \<and>
           \<not> (isArray (JStr ''EGeneral:Internal error'') \<and>
              elements (JStr ''EGeneral:Internal error'') \<noteq> [])"
    by (simp add: obj_get_def)
  have 1: "promise (on_parsed example_platform None False
      (JObj [(''error'', JStr ''EGeneral:Internal error'')])) =
     Resolved (JObj [(''error'', JStr ''EGeneral:Internal error'')])"
    by (simp add: on_parsed_def obj_get_def report_success_def js_or_def)
  have 2: "promise (on_parsed example_platform None False
      (JObj [(''error'', JArr [JStr ''EGeneral:Invalid arguments''])])) =
     Rejected (Error ''Kraken API returned error: General:Invalid arguments'')"
    by (simp add: on_parsed_def obj_get_def report_error_def)
  from 2 have 3: "\<exists>y ys. get_prop (JObj [(''error'', JArr [JStr ''EGeneral:Invalid arguments''])])
      ''error'' = Inr (JArr (y # ys))"
    using only_nonempty_error_array_fails [where P = example_platform and self = None
        and callback = False
        and data = "JObj [(''error'', JArr [JStr ''EGeneral:Invalid arguments''])]"
        and e = "Error ''Kraken API returned error: General:Invalid arguments''"]
    by blast
  from a have 4: "\<exists>v. promise (on_parsed example_platform None False
      (JObj [(''error'', JStr ''EGeneral:Internal error'')])) = Resolved v \<and> v \<noteq> JUndefined"
    using only_nonempty_error_array_fails [where P = example_platform and self = None
        and callback = False and data = "JObj [(''error'', JStr ''EGeneral:Internal error'')]"
        and err = "JStr ''EGeneral:Internal error''"]
    by blast
  from 1 2 3 4 show ?thesis by blast
qed

end
